theory Spec2Isabelle
  imports Main "HOL-Library.Monad_Syntax"
begin

section \<open>Shared vocabulary\<close>

subsection \<open>Rendering numbers as JavaScript does\<close>

text \<open>
  Template literals and \<open>String(n)\<close> render an integer in decimal, with a leading
  minus sign for a negative one.
\<close>

definition digit_char :: "nat \<Rightarrow> char" where
  "digit_char d = ''0123456789'' ! (d mod 10)"

fun dec_nat :: "nat \<Rightarrow> string" where
  "dec_nat n = (if n < 10 then [digit_char n] else dec_nat (n div 10) @ [digit_char n])"

declare dec_nat.simps [simp del]

definition dec_int :: "int \<Rightarrow> string" where
  "dec_int i = (if i < 0 then CHR ''-'' # dec_nat (nat (- i)) else dec_nat (nat i))"

subsection \<open>Array.prototype.slice with one argument\<close>

text \<open>
  \<open>xs.slice(k)\<close>: a negative \<open>k\<close> counts from the end and is clamped at the start of
  the array; a non-negative one is clamped at its end.
\<close>

definition js_slice_from :: "int \<Rightarrow> 'a list \<Rightarrow> 'a list" where
  "js_slice_from k xs =
     (let n = int (length xs);
          start = (if k < 0 then max (n + k) 0 else min k n)
      in drop (nat start) xs)"

subsection \<open>Strings\<close>

text \<open>\<open>s.split(c)\<close> for a one-character separator; \<open>''.split(c)\<close> is \<open>['']\<close>.\<close>

fun split_on :: "char \<Rightarrow> string \<Rightarrow> string list" where
  "split_on c [] = [[]]"
| "split_on c (x # xs) =
     (if x = c then [] # split_on c xs
      else (x # hd (split_on c xs)) # tl (split_on c xs))"

definition startsWith :: "string \<Rightarrow> string \<Rightarrow> bool" where
  "startsWith s p = (take (length p) s = p)"

subsection \<open>JSON values\<close>

text \<open>
  Values that cross \<open>JSON.parse\<close>/\<open>JSON.stringify\<close> and the plan objects built from
  them. Numbers are the integers (\<open>Date.now()\<close>, exit codes); an object is its list of
  entries, looked up by key.
\<close>

datatype json =
    JNull
  | JBool bool
  | JNum int
  | JStr string
  | JArr "json list"
  | JObj "(string \<times> json) list"

text \<open>Truthiness, as \<open>||\<close> and \<open>!\<close> test it.\<close>

fun truthy :: "json \<Rightarrow> bool" where
  "truthy JNull = False"
| "truthy (JBool b) = b"
| "truthy (JNum n) = (n \<noteq> 0)"
| "truthy (JStr s) = (s \<noteq> [])"
| "truthy (JArr xs) = True"
| "truthy (JObj kv) = True"

text \<open>\<open>x || d\<close> for an optional string property \<open>x\<close> (absent is \<open>undefined\<close>).\<close>

fun or_str :: "string option \<Rightarrow> string \<Rightarrow> string" where
  "or_str None d = d"
| "or_str (Some s) d = (if s = [] then d else s)"

text \<open>\<open>x || d\<close> for an optional property holding any JSON value.\<close>

fun or_json :: "json option \<Rightarrow> json \<Rightarrow> json" where
  "or_json None d = d"
| "or_json (Some v) d = (if truthy v then v else d)"

section \<open>Paths (Node's posix \<open>path\<close> module)\<close>

text \<open>
  \<open>path.join\<close> concatenates its non-empty arguments with \<open>/\<close> and normalises the
  result: going through the \<open>/\<close>-separated segments from left to right, it drops empty
  and \<open>.\<close> segments, and lets a \<open>..\<close> segment remove the segment before it; a \<open>..\<close>
  with nothing to remove is kept in a relative path and dropped in an absolute one.
  \<open>norm_step\<close> is one round of that loop (\<open>normalizeString\<close>), on the list of segments
  kept so far.
\<close>

definition norm_step :: "bool \<Rightarrow> string list \<Rightarrow> string \<Rightarrow> string list" where
  "norm_step allowAboveRoot res seg =
     (if seg = [] \<or> seg = ''.'' then res
      else if seg = ''..'' then
        (if res \<noteq> [] \<and> last res \<noteq> ''..'' then butlast res
         else if allowAboveRoot then res @ [''..''] else res)
      else res @ [seg])"

text \<open>
  A normalised path is kept as its segments and whether it is absolute; \<open>render\<close> gives
  the string Node returns for it (\<open>.\<close> for the empty relative path, \<open>/\<close> for the
  root). A trailing slash, which \<open>path.join\<close> preserves, is not recorded.
\<close>

record npath =
  isAbsolute :: bool
  segments :: "string list"

fun intercalate :: "string \<Rightarrow> string list \<Rightarrow> string" where
  "intercalate sep [] = []"
| "intercalate sep [s] = s"
| "intercalate sep (s # t # ss) = s @ sep @ intercalate sep (t # ss)"

definition render :: "npath \<Rightarrow> string" where
  "render p =
     (if isAbsolute p then CHR ''/'' # intercalate ''/'' (segments p)
      else if segments p = [] then ''.'' else intercalate ''/'' (segments p))"

definition raw_segments :: "string list \<Rightarrow> string list" where
  "raw_segments parts = concat (map (split_on CHR ''/'') parts)"

text \<open>\<open>path.join(s1, ..., sn)\<close> of strings.\<close>

definition path_join0 :: "string list \<Rightarrow> npath" where
  "path_join0 parts =
     (let a = (case filter (\<lambda>s. s \<noteq> []) parts of [] \<Rightarrow> False | s # _ \<Rightarrow> hd s = CHR ''/'')
      in \<lparr> isAbsolute = a, segments = foldl (norm_step (\<not> a)) [] (raw_segments parts) \<rparr>)"

text \<open>
  \<open>path.join(p, s1, ..., sn)\<close> where \<open>p\<close> is the result of an earlier join: the joined
  string starts with \<open>p\<close>, so it is absolute exactly when \<open>p\<close> is, and normalising it
  goes on from the segments of \<open>p\<close>.
\<close>

definition path_join :: "npath \<Rightarrow> string list \<Rightarrow> npath" where
  "path_join p parts =
     \<lparr> isAbsolute = isAbsolute p,
       segments = foldl (norm_step (\<not> isAbsolute p)) (segments p) (raw_segments parts) \<rparr>"


section \<open>The file system\<close>

text \<open>
  The files of the sandbox tree, by normalised path; the latest write of a path comes
  first. \<open>writeJson\<close> stores a JSON document and \<open>readJson\<close> gives it back; a file
  written as text is read through \<open>JSON.parse\<close>, a parameter \<open>parseText\<close> of the readers.
  Directories are not recorded (\<open>ensureDir\<close> changes nothing here), and file-system calls
  are taken to succeed.
\<close>

datatype file_data = Utf8 string | JsonDoc json

type_synonym fs = "(npath \<times> file_data) list"

definition readFile :: "fs \<Rightarrow> npath \<Rightarrow> file_data option" where
  "readFile files p = map_of files p"

definition pathExists :: "fs \<Rightarrow> npath \<Rightarrow> bool" where
  "pathExists files p = (readFile files p \<noteq> None)"

definition writeFile :: "fs \<Rightarrow> npath \<Rightarrow> string \<Rightarrow> fs" where
  "writeFile files p text = (p, Utf8 text) # files"

definition writeJson :: "fs \<Rightarrow> npath \<Rightarrow> json \<Rightarrow> fs" where
  "writeJson files p j = (p, JsonDoc j) # files"

definition readJson :: "(string \<Rightarrow> json option) \<Rightarrow> fs \<Rightarrow> npath \<Rightarrow> json option" where
  "readJson parseText files p =
     (case readFile files p of
        None \<Rightarrow> None
      | Some (JsonDoc j) \<Rightarrow> Some j
      | Some (Utf8 text) \<Rightarrow> parseText text)"

text \<open>
  \<open>fs.readdir(dir)\<close>: the names of the entries directly inside \<open>dir\<close>, here those on the
  way to some file.
\<close>

definition child_name :: "npath \<Rightarrow> npath \<Rightarrow> string option" where
  "child_name dir p =
     (let n = length (segments dir)
      in if isAbsolute p = isAbsolute dir \<and> take n (segments p) = segments dir
            \<and> n < length (segments p) \<and> segments p ! n \<noteq> ''..''
         then Some (segments p ! n) else None)"

definition readdir :: "fs \<Rightarrow> npath \<Rightarrow> string list" where
  "readdir files dir = remdups (List.map_filter (child_name dir) (map fst files))"

section \<open>ToolStore (tools.mjs)\<close>

subsection \<open>The manifest schema\<close>

datatype language = Python | Node

record input_spec =
  in_name :: string
  in_type :: string
  in_required :: "bool option"

record output_spec =
  out_name :: string
  out_type :: string

record manifest =
  id' :: string
  name :: string
  purpose :: string
  language :: language
  entry :: string
  inputs :: "input_spec list"
  outputs :: "output_spec list"
  usage :: string
  createdAt :: int
  updatedAt :: int

text \<open>
  The zod validators. Each takes the value of a property, \<open>None\<close> when the object has no
  such property, and returns \<open>None\<close> where zod throws.
\<close>

fun z_string :: "json option \<Rightarrow> string option" where
  "z_string (Some (JStr s)) = Some s"
| "z_string _ = None"

fun z_number :: "json option \<Rightarrow> int option" where
  "z_number (Some (JNum n)) = Some n"
| "z_number _ = None"

fun z_language :: "json option \<Rightarrow> language option" where
  "z_language (Some (JStr s)) =
     (if s = ''python'' then Some Python else if s = ''node'' then Some Node else None)"
| "z_language _ = None"

fun z_boolean_optional :: "json option \<Rightarrow> bool option option" where
  "z_boolean_optional None = Some None"
| "z_boolean_optional (Some (JBool b)) = Some (Some b)"
| "z_boolean_optional _ = None"

fun z_string_default :: "json option \<Rightarrow> string option" where
  "z_string_default None = Some []"
| "z_string_default (Some (JStr s)) = Some s"
| "z_string_default _ = None"

fun z_input :: "json \<Rightarrow> input_spec option" where
  "z_input (JObj kv) =
     do { n \<leftarrow> z_string (map_of kv ''name'');
          t \<leftarrow> z_string (map_of kv ''type'');
          r \<leftarrow> z_boolean_optional (map_of kv ''required'');
          Some \<lparr> in_name = n, in_type = t, in_required = r \<rparr> }"
| "z_input _ = None"

fun z_output :: "json \<Rightarrow> output_spec option" where
  "z_output (JObj kv) =
     do { n \<leftarrow> z_string (map_of kv ''name'');
          t \<leftarrow> z_string (map_of kv ''type'');
          Some \<lparr> out_name = n, out_type = t \<rparr> }"
| "z_output _ = None"

text \<open>\<open>z.array(elem).default([])\<close>.\<close>

fun z_array_default :: "(json \<Rightarrow> 'a option) \<Rightarrow> json option \<Rightarrow> 'a list option" where
  "z_array_default elem None = Some []"
| "z_array_default elem (Some (JArr xs)) = those (map elem xs)"
| "z_array_default elem _ = None"

text \<open>\<open>ToolManifest.parse\<close>: unknown properties are stripped, defaults filled in.\<close>

fun ToolManifest_parse :: "json \<Rightarrow> manifest option" where
  "ToolManifest_parse (JObj kv) =
     do { i \<leftarrow> z_string (map_of kv ''id'');
          n \<leftarrow> z_string (map_of kv ''name'');
          p \<leftarrow> z_string (map_of kv ''purpose'');
          l \<leftarrow> z_language (map_of kv ''language'');
          e \<leftarrow> z_string (map_of kv ''entry'');
          ins \<leftarrow> z_array_default z_input (map_of kv ''inputs'');
          outs \<leftarrow> z_array_default z_output (map_of kv ''outputs'');
          u \<leftarrow> z_string_default (map_of kv ''usage'');
          c \<leftarrow> z_number (map_of kv ''createdAt'');
          d \<leftarrow> z_number (map_of kv ''updatedAt'');
          Some \<lparr> id' = i, name = n, purpose = p, language = l, entry = e, inputs = ins,
                 outputs = outs, usage = u, createdAt = c, updatedAt = d \<rparr> }"
| "ToolManifest_parse _ = None"

text \<open>The parsed manifest as the JSON document that \<open>fs.writeJson\<close> stores.\<close>

definition language_name :: "language \<Rightarrow> string" where
  "language_name l = (case l of Python \<Rightarrow> ''python'' | Node \<Rightarrow> ''node'')"

definition input_json :: "input_spec \<Rightarrow> json" where
  "input_json i =
     JObj ([(''name'', JStr (in_name i)), (''type'', JStr (in_type i))]
           @ (case in_required i of None \<Rightarrow> [] | Some b \<Rightarrow> [(''required'', JBool b)]))"

definition output_json :: "output_spec \<Rightarrow> json" where
  "output_json ou = JObj [(''name'', JStr (out_name ou)), (''type'', JStr (out_type ou))]"

definition manifest_json :: "manifest \<Rightarrow> json" where
  "manifest_json m =
     JObj [(''id'', JStr (id' m)), (''name'', JStr (name m)), (''purpose'', JStr (purpose m)),
           (''language'', JStr (language_name (language m))), (''entry'', JStr (entry m)),
           (''inputs'', JArr (map input_json (inputs m))),
           (''outputs'', JArr (map output_json (outputs m))),
           (''usage'', JStr (usage m)),
           (''createdAt'', JNum (createdAt m)), (''updatedAt'', JNum (updatedAt m))]"

subsection \<open>saveTool, writeToolCode, loadTools\<close>

text \<open>A catalog record is \<open>{...parsed, path, manifestPath}\<close>.\<close>

record tool_record = manifest +
  path :: npath
  manifestPath :: npath

definition tool_of :: "manifest \<Rightarrow> npath \<Rightarrow> npath \<Rightarrow> tool_record" where
  "tool_of m dir mp = manifest.extend m \<lparr> path = dir, manifestPath = mp \<rparr>"

text \<open>
  \<open>saveTool\<close>: \<open>None\<close> when \<open>ToolManifest.parse\<close> throws, which is before anything is
  written.
\<close>

definition saveTool :: "string \<Rightarrow> json \<Rightarrow> fs \<Rightarrow> (fs \<times> tool_record) option" where
  "saveTool sandboxDir m files =
     (case ToolManifest_parse m of
        None \<Rightarrow> None
      | Some parsed \<Rightarrow>
          let toolsDir = path_join0 [sandboxDir, ''tools'', id' parsed];
              mp = path_join toolsDir [''manifest.json'']
          in Some (writeJson files mp (manifest_json parsed), tool_of parsed toolsDir mp))"

text \<open>
  \<open>writeToolCode\<close>: the loop over \<open>Object.entries(files)\<close> writes every entry at
  \<open>path.join(toolsDir, rel)\<close>; no entry is examined or refused.
\<close>

fun write_entries :: "npath \<Rightarrow> (string \<times> string) list \<Rightarrow> fs \<Rightarrow> fs" where
  "write_entries toolsDir [] files = files"
| "write_entries toolsDir ((rel, text) # rest) files =
     write_entries toolsDir rest (writeFile files (path_join toolsDir [rel]) text)"

definition writeToolCode :: "string \<Rightarrow> string \<Rightarrow> (string \<times> string) list \<Rightarrow> fs \<Rightarrow> fs \<times> npath" where
  "writeToolCode sandboxDir toolId entries files =
     (let toolsDir = path_join0 [sandboxDir, ''tools'', toolId]
      in (write_entries toolsDir entries files, toolsDir))"

text \<open>
  \<open>loadTools\<close>: the loop over the directory names; \<open>out[id]\<close> is keyed by the name that
  \<open>readdir\<close> returned.
\<close>

fun load_each :: "(string \<Rightarrow> json option) \<Rightarrow> fs \<Rightarrow> npath \<Rightarrow> string list
                  \<Rightarrow> (string \<rightharpoonup> tool_record) \<Rightarrow> (string \<rightharpoonup> tool_record)" where
  "load_each parseText files toolsRoot [] out = out"
| "load_each parseText files toolsRoot (d # ds) out =
     (let mp = path_join toolsRoot [d, ''manifest.json'']
      in if \<not> pathExists files mp then load_each parseText files toolsRoot ds out
         else (case readJson parseText files mp of
                 None \<Rightarrow> load_each parseText files toolsRoot ds out
               | Some m \<Rightarrow>
                   (case ToolManifest_parse m of
                      None \<Rightarrow> load_each parseText files toolsRoot ds out
                    | Some parsed \<Rightarrow>
                        load_each parseText files toolsRoot ds
                          (out(d \<mapsto> tool_of parsed (path_join toolsRoot [d]) mp)))))"

definition loadTools :: "(string \<Rightarrow> json option) \<Rightarrow> string \<Rightarrow> fs \<Rightarrow> (string \<rightharpoonup> tool_record)" where
  "loadTools parseText sandboxDir files =
     (let toolsRoot = path_join0 [sandboxDir, ''tools''];
          ids = filter (\<lambda>d. \<not> startsWith d ''.'') (readdir files toolsRoot)
      in load_each parseText files toolsRoot ids Map.empty)"

section \<open>Memory (memory.mjs)\<close>

text \<open>
  A history entry is \<open>{role, content, ts}\<close>. The entry that \<open>summarizeHistory\<close>
  synthesises has no \<open>ts\<close> field, hence the option.
\<close>

record turn =
  role :: string
  content :: string
  ts :: "int option"

text \<open>
  The memory object: the catalog by id, the conversation, the run records.
\<close>

record memory =
  mem_tools :: "string \<rightharpoonup> tool_record"
  mem_history :: "turn list"
  mem_runs :: "json list"

text \<open>
  \<open>summarizeHistory(memory, maxTurns = 40)\<close>, with an absent \<open>maxTurns\<close> as \<open>None\<close>.
  The function returns its result together with the memory as it is after the call; the
  source only reads \<open>memory.history\<close> (\<open>length\<close>, \<open>slice\<close>, a spread into a new
  array) and assigns nothing.
\<close>

definition summarizeHistory :: "memory \<Rightarrow> int option \<Rightarrow> turn list \<times> memory" where
  "summarizeHistory m maxTurns =
     (let n = (case maxTurns of None \<Rightarrow> 40 | Some k \<Rightarrow> k)
      in if int (length (mem_history m)) \<le> n then (mem_history m, m)
         else let keep = js_slice_from (- n) (mem_history m);
                  omitted = length (mem_history m) - length keep
              in (\<lparr> role = ''system'',
                     content = ''Summarized context: '' @ dec_nat omitted @ '' earlier turns omitted.'',
                     ts = None \<rparr> # keep, m))"

text \<open>\<open>addHistory(memory, role, content)\<close> pushes one entry stamped with the clock.\<close>

definition addHistory :: "memory \<Rightarrow> string \<Rightarrow> string \<Rightarrow> int \<Rightarrow> memory" where
  "addHistory m r c now =
     m \<lparr> mem_history := mem_history m @ [\<lparr> role = r, content = c, ts = Some now \<rparr>] \<rparr>"

section \<open>Tool materialisation (agent.mjs, the loop over \<open>plan.createTools\<close>)\<close>

text \<open>
  A \<open>ToolSpec\<close> of the plan. Every property may be absent; \<open>language\<close> is whatever
  string the planner wrote, and \<open>inputs\<close>/\<open>outputs\<close> whatever JSON it wrote.
\<close>

record tool_spec =
  spec_id :: "string option"
  spec_name :: "string option"
  spec_language :: "string option"
  spec_entry :: "string option"
  spec_purpose :: "string option"
  spec_files :: "(string \<times> string) list option"
  spec_inputs :: "json option"
  spec_outputs :: "json option"
  spec_usage :: "string option"

text \<open>
  \<open>(t.name || 'tool').toLowerCase().replace(/[^a-z0-9]+/g, '-')\<close>, on ASCII: every
  maximal run of characters outside \<open>[a-z0-9]\<close> becomes one \<open>-\<close>.
\<close>

definition lower_char :: "char \<Rightarrow> char" where
  "lower_char c =
     (case map_of (zip ''ABCDEFGHIJKLMNOPQRSTUVWXYZ'' ''abcdefghijklmnopqrstuvwxyz'') c of
        Some l \<Rightarrow> l | None \<Rightarrow> c)"

definition is_slug_char :: "char \<Rightarrow> bool" where
  "is_slug_char c = (c \<in> set ''abcdefghijklmnopqrstuvwxyz0123456789'')"

fun slug_run :: "bool \<Rightarrow> string \<Rightarrow> string" where
  "slug_run in_run [] = []"
| "slug_run in_run (c # cs) =
     (if is_slug_char c then c # slug_run False cs
      else if in_run then slug_run True cs
      else CHR ''-'' # slug_run True cs)"

definition slug :: "string \<Rightarrow> string" where
  "slug s = slug_run False (map lower_char s)"

text \<open>
  The state the loop works on. \<open>clock\<close> is what successive calls of \<open>Date.now()\<close>
  return and \<open>ticks\<close> counts the calls made.
\<close>

record agent_state =
  disk :: fs
  tools :: "string \<rightharpoonup> tool_record"
  created :: "string list"
  createdFiles :: "(string \<times> string list) list"
  memory :: memory
  ticks :: nat

text \<open>
  \<open>t.id || slug + '-' + Date.now()\<close>: the clock is read only when \<open>t.id\<close> is
  missing or empty.
\<close>

definition choose_toolId :: "(nat \<Rightarrow> int) \<Rightarrow> tool_spec \<Rightarrow> nat \<Rightarrow> string \<times> nat" where
  "choose_toolId clock t n =
     (case spec_id t of
        Some i \<Rightarrow> if i \<noteq> [] then (i, n)
                  else (slug (or_str (spec_name t) ''tool'') @ ''-'' @ dec_int (clock n), Suc n)
      | None \<Rightarrow> (slug (or_str (spec_name t) ''tool'') @ ''-'' @ dec_int (clock n), Suc n))"

text \<open>The object literal handed to \<open>saveTool\<close>.\<close>

definition spec_manifest :: "tool_spec \<Rightarrow> string \<Rightarrow> int \<Rightarrow> int \<Rightarrow> json" where
  "spec_manifest t toolId c u =
     JObj [(''id'', JStr toolId),
           (''name'', JStr (or_str (spec_name t) toolId)),
           (''purpose'', JStr (or_str (spec_purpose t) ''N/A'')),
           (''language'', JStr (or_str (spec_language t) ''node'')),
           (''entry'', JStr (or_str (spec_entry t) ''index.mjs'')),
           (''inputs'', or_json (spec_inputs t) (JArr [])),
           (''outputs'', or_json (spec_outputs t) (JArr [])),
           (''usage'', JStr (or_str (spec_usage t) [])),
           (''createdAt'', JNum c),
           (''updatedAt'', JNum u)]"

text \<open>
  One round of the loop: the \<open>try\<close> block, and the \<open>catch\<close> that turns a rejected
  manifest into a history line (\<open>message\<close> gives the text of the error thrown for a
  manifest). The code files are written before the manifest is validated, so they stay
  when it is rejected.
\<close>

definition materialize ::
  "(nat \<Rightarrow> int) \<Rightarrow> (json \<Rightarrow> string) \<Rightarrow> string \<Rightarrow> tool_spec \<Rightarrow> agent_state \<Rightarrow> agent_state" where
  "materialize clock message sandboxDir t st =
     (let (toolId, n1) = choose_toolId clock t (ticks st);
          entries = (case spec_files t of None \<Rightarrow> [] | Some es \<Rightarrow> es);
          (files1, toolsDir) = writeToolCode sandboxDir toolId entries (disk st);
          st1 = st \<lparr> disk := files1,
                     createdFiles := createdFiles st @ [(toolId, map fst entries)] \<rparr>;
          m = spec_manifest t toolId (clock n1) (clock (Suc n1))
      in case saveTool sandboxDir m files1 of
           Some (files2, saved) \<Rightarrow>
             st1 \<lparr> disk := files2, tools := (tools st)(toolId \<mapsto> saved),
                   created := created st @ [toolId], ticks := Suc (Suc n1) \<rparr>
         | None \<Rightarrow>
             st1 \<lparr> memory := addHistory (memory st) ''assistant''
                                (''Failed to create tool: '' @ message m) (clock (Suc (Suc n1))),
                   ticks := Suc (Suc (Suc n1)) \<rparr>)"

definition materializeTools ::
  "(nat \<Rightarrow> int) \<Rightarrow> (json \<Rightarrow> string) \<Rightarrow> string \<Rightarrow> tool_spec list \<Rightarrow> agent_state \<Rightarrow> agent_state" where
  "materializeTools clock message sandboxDir specs st =
     foldl (\<lambda>s t. materialize clock message sandboxDir t s) st specs"

section \<open>Sandbox (sandbox.mjs)\<close>

subsection \<open>One child process\<close>


record run_result =
  code :: "int option"
  stdout :: string
  stderr :: string
  logFile :: npath





subsection \<open>Sandbox.run\<close>


record run_req =
  rq_language :: string
  rq_entry :: string
  rq_args :: "string list"
  rq_stdin :: string
  rq_runId :: "string option"
  rq_onStdout :: bool
  rq_onStderr :: bool








section \<open>The run chain (agent.mjs, the loop over \<open>plan.run\<close>)\<close>

subsection \<open>Template expansion\<close>

text \<open>
  \<open>tpl.replace(/\$\{([^}]+)\}/g, f)\<close>, scanning from the left: at a \<open>$\<close> followed by
  \<open>{\<close>, the greedy \<open>[^}]+\<close> takes every character up to the next \<open>}\<close>; the match
  succeeds when it took at least one character and a \<open>}\<close> follows, and the scan goes on
  behind that \<open>}\<close>. Where no match starts, the character is copied. What \<open>f\<close> returns
  is not scanned again.
\<close>

function replace_placeholders :: "(string \<Rightarrow> string) \<Rightarrow> string \<Rightarrow> string" where
  "replace_placeholders f [] = []"
| "replace_placeholders f (c # cs) =
     (if c = CHR ''$'' \<and> cs \<noteq> [] \<and> hd cs = CHR ''{''
         \<and> takeWhile (\<lambda>x. x \<noteq> CHR ''}'') (tl cs) \<noteq> []
         \<and> dropWhile (\<lambda>x. x \<noteq> CHR ''}'') (tl cs) \<noteq> []
      then f (takeWhile (\<lambda>x. x \<noteq> CHR ''}'') (tl cs))
             @ replace_placeholders f (tl (dropWhile (\<lambda>x. x \<noteq> CHR ''}'') (tl cs)))
      else c # replace_placeholders f cs)"
  by pat_completeness auto
termination
proof (relation "measure (\<lambda>(f, s). length s)")
  show "wf (measure (\<lambda>(f, s). length s))" by simp
next
  fix f :: "string \<Rightarrow> string" and c :: char and cs :: string
  have "length (tl (dropWhile (\<lambda>x. x \<noteq> CHR ''}'') (tl cs))) \<le> length cs"
    using length_dropWhile_le [of "\<lambda>x. x \<noteq> CHR ''}''" "tl cs"] by simp
  then show "((f, tl (dropWhile (\<lambda>x. x \<noteq> CHR ''}'') (tl cs))), (f, c # cs))
               \<in> measure (\<lambda>(f, s). length s)"
    by simp
next
  fix f :: "string \<Rightarrow> string" and c :: char and cs :: string
  show "((f, cs), (f, c # cs)) \<in> measure (\<lambda>(f, s). length s)" by simp
qed

declare replace_placeholders.simps [simp del]

text \<open>
  \<open>expr.match(/^runs\.(.+?)\.(stdout|stderr|code)$/)\<close> behind the prefix \<open>runs.\<close>: the
  lazy \<open>.+?\<close> grows one character at a time, never over a line terminator, until what is
  left is exactly \<open>.stdout\<close>, \<open>.stderr\<close> or \<open>.code\<close>. Of the line terminators,
  line feed and carriage return exist among the 8-bit characters used here.
\<close>

definition is_line_terminator :: "char \<Rightarrow> bool" where
  "is_line_terminator c = (c = CHR 0x0A \<or> c = CHR 0x0D)"

fun lazy_group :: "string \<Rightarrow> string \<Rightarrow> (string \<times> string) option" where
  "lazy_group taken [] = None"
| "lazy_group taken (c # cs) =
     (if taken \<noteq> [] \<and> c = CHR ''.'' \<and> (cs = ''stdout'' \<or> cs = ''stderr'' \<or> cs = ''code'')
      then Some (taken, cs)
      else if is_line_terminator c then None
      else lazy_group (taken @ [c]) cs)"

definition match_runs :: "string \<Rightarrow> (string \<times> string) option" where
  "match_runs expr = (if startsWith expr ''runs.'' then lazy_group [] (drop 5 expr) else None)"

text \<open>\<open>String(r[m[2]] ?? '')\<close>; a \<open>null\<close> code gives the empty string.\<close>

definition field_text :: "run_result \<Rightarrow> string \<Rightarrow> string" where
  "field_text r field =
     (if field = ''stdout'' then stdout r
      else if field = ''stderr'' then stderr r
      else (case code r of None \<Rightarrow> [] | Some n \<Rightarrow> dec_int n))"

text \<open>The callback of \<open>replace\<close>, over \<open>lastRun\<close> and \<open>runIndex\<close>.\<close>

definition eval_expr :: "run_result option \<Rightarrow> (string \<rightharpoonup> run_result) \<Rightarrow> string \<Rightarrow> string" where
  "eval_expr lastRun runIndex expr =
     (if expr = ''last.stdout'' then (case lastRun of None \<Rightarrow> [] | Some r \<Rightarrow> stdout r)
      else (case match_runs expr of
              None \<Rightarrow> []
            | Some (toolId, field) \<Rightarrow>
                (case runIndex toolId of None \<Rightarrow> [] | Some r \<Rightarrow> field_text r field)))"

text \<open>\<open>expand\<close>, on a string and on any value.\<close>

definition expand_string :: "run_result option \<Rightarrow> (string \<rightharpoonup> run_result) \<Rightarrow> string \<Rightarrow> string" where
  "expand_string lastRun runIndex tpl =
     (if tpl = [] then tpl else replace_placeholders (eval_expr lastRun runIndex) tpl)"


subsection \<open>The loop\<close>

text \<open>
  A call of the plan, with the types of the plan's schema: \<open>args\<close> a list of strings,
  \<open>stdin\<close> a string, each possibly absent.
\<close>

record run_call =
  call_id :: "string option"
  call_toolId :: "string option"
  call_args :: "string list option"
  call_stdin :: "string option"

text \<open>
  An element of \<open>runs\<close>: \<open>{id, error: 'Tool not found'}\<close>, \<open>{id, args, ...res}\<close>, or
  \<open>{id, retry: true, reason?, ...retry}\<close>.
\<close>

datatype run_entry =
    Not_found "string option"
  | First_run string "string list" run_result
  | Retry_run string "string option" run_result

text \<open>
  The variables of the loop: \<open>runs\<close>, \<open>runIndex\<close>, \<open>lastRun\<close>; and, to speak about
  what the loop asks of its collaborators, the requests made to \<open>sandbox.run\<close> and the
  prompts sent to the model so far, with the number of \<open>Date.now()\<close> calls. The files
  the loop writes on the way (\<open>requirements.txt\<close>, \<open>package.json\<close>, the patch) act on
  the disk only, which the sandbox reads; here the sandbox's answers are given by the
  environment, and file-system and model calls are taken to return.
\<close>

record chain_state =
  runs :: "run_entry list"
  runIndex :: "string \<rightharpoonup> run_result"
  lastRun :: "run_result option"
  requests :: "run_req list"
  fix_prompts :: "string list"
  clock_reads :: nat

text \<open>
  The environment: \<open>run_tool k rq\<close> is what the \<open>k\<close>-th call of \<open>sandbox.run\<close> returns
  for the request \<open>rq\<close>; \<open>propose_fix k prompt\<close> is the \<open>files\<close> object of the patch
  parsed from the model's \<open>k\<close>-th answer, if there is one; \<open>network_allowed\<close> is
  \<open>config.limits?.network !== false\<close>.
\<close>

record chain_env =
  run_tool :: "nat \<Rightarrow> run_req \<Rightarrow> run_result"
  propose_fix :: "nat \<Rightarrow> string \<Rightarrow> (string \<times> string) list option"
  time :: "nat \<Rightarrow> int"
  network_allowed :: bool
  interactive :: bool

definition initial_chain :: chain_state where
  "initial_chain = \<lparr> runs = [], runIndex = Map.empty, lastRun = None, requests = [],
                      fix_prompts = [], clock_reads = 0 \<rparr>"

text \<open>
  The two stderr patterns of the dependency heuristic,
  \<open>/ModuleNotFoundError: No module named ['"]([^'\"]+)['"]/\<close> and
  \<open>/Cannot find module ['"]([^'\"]+)['"]/\<close>: the literal text, a quote, at least one
  character that is not a quote, and a quote; searched from the left.
\<close>

definition is_quote :: "char \<Rightarrow> bool" where
  "is_quote c = (c = CHR 0x27 \<or> c = CHR 0x22)"

definition quoted_after :: "string \<Rightarrow> string \<Rightarrow> string option" where
  "quoted_after lit s =
     (if startsWith s lit then
        (case drop (length lit) s of
           [] \<Rightarrow> None
         | q # cs \<Rightarrow>
             if is_quote q \<and> takeWhile (\<lambda>c. \<not> is_quote c) cs \<noteq> []
                \<and> dropWhile (\<lambda>c. \<not> is_quote c) cs \<noteq> []
             then Some (takeWhile (\<lambda>c. \<not> is_quote c) cs) else None)
      else None)"

fun find_quoted :: "string \<Rightarrow> string \<Rightarrow> string option" where
  "find_quoted lit [] = quoted_after lit []"
| "find_quoted lit (c # cs) =
     (case quoted_after lit (c # cs) of Some pkg \<Rightarrow> Some pkg | None \<Rightarrow> find_quoted lit cs)"

text \<open>\<open>call.id || call.toolId\<close>.\<close>

definition call_key :: "run_call \<Rightarrow> string option" where
  "call_key call =
     (case call_id call of
        Some i \<Rightarrow> if i \<noteq> [] then Some i else call_toolId call
      | None \<Rightarrow> call_toolId call)"

text \<open>Calling \<open>sandbox.run\<close>, which reads the clock for the run id.\<close>

definition run_request ::
  "chain_env \<Rightarrow> tool_record \<Rightarrow> string \<Rightarrow> string \<Rightarrow> string list \<Rightarrow> string \<Rightarrow> bool \<Rightarrow> chain_state \<Rightarrow> run_req" where
  "run_request E t i tag args stdin callbacks st =
     \<lparr> rq_language = language_name (language t),
       rq_entry = render (path_join0 [''tools'', i, entry t]),
       rq_args = args, rq_stdin = stdin,
       rq_runId = Some (i @ tag @ dec_int (time E (clock_reads st))),
       rq_onStdout = callbacks, rq_onStderr = callbacks \<rparr>"

definition call_sandbox :: "chain_env \<Rightarrow> run_req \<Rightarrow> chain_state \<Rightarrow> run_result \<times> chain_state" where
  "call_sandbox E rq st =
     (run_tool E (length (requests st)) rq,
      st \<lparr> requests := requests st @ [rq], clock_reads := Suc (clock_reads st) \<rparr>)"

text \<open>
  The heuristic dependency fix: when the pattern of the tool's language is found in the
  stderr of the failed run, the tool is run once more with the same arguments and stdin,
  and the retry replaces the run in \<open>runIndex\<close> and \<open>lastRun\<close>. It returns the result
  the loop goes on with (\<open>res\<close>).
\<close>

definition dependency_fix ::
  "chain_env \<Rightarrow> tool_record \<Rightarrow> string \<Rightarrow> string list \<Rightarrow> string \<Rightarrow> run_result \<Rightarrow> chain_state
     \<Rightarrow> run_result \<times> chain_state" where
  "dependency_fix E t i args stdin res st =
     (let (found, reason) =
            (case language t of
               Python \<Rightarrow> (find_quoted ''ModuleNotFoundError: No module named '' (stderr res),
                           ''auto-install-python'')
             | Node \<Rightarrow> (find_quoted ''Cannot find module '' (stderr res), ''auto-install-node''))
      in case found of
           None \<Rightarrow> (res, st)
         | Some pkg \<Rightarrow>
             let (retry, st') = call_sandbox E (run_request E t i ''-deps-'' args stdin True st) st
             in (retry, st' \<lparr> runs := runs st' @ [Retry_run i (Some reason) retry],
                              runIndex := (runIndex st')(i \<mapsto> retry),
                              lastRun := Some retry \<rparr>))"

text \<open>
  The model-guided patch: the retry is run with \<open>call.stdin || ''\<close> and pushed to
  \<open>runs\<close>; there is no assignment to \<open>runIndex\<close> or \<open>lastRun\<close> in this branch.
\<close>

definition model_patch ::
  "chain_env \<Rightarrow> tool_record \<Rightarrow> string \<Rightarrow> run_call \<Rightarrow> string list \<Rightarrow> run_result \<Rightarrow> chain_state
     \<Rightarrow> chain_state" where
  "model_patch E t i call args res st =
     (let fixPrompt = ''Tool '' @ name t @ '' failed. stderr:'' @ [CHR 0x0A] @ stderr res
                      @ [CHR 0x0A, CHR 0x0A]
                      @ ''Propose a minimal patch to fix. Return JSON {files:{path: content}}'';
          st1 = st \<lparr> fix_prompts := fix_prompts st @ [fixPrompt] \<rparr>
      in case propose_fix E (length (fix_prompts st)) fixPrompt of
           None \<Rightarrow> st1
         | Some patch \<Rightarrow>
             let (retry, st2) =
                   call_sandbox E (run_request E t i ''-retry-'' args (or_str (call_stdin call) [])
                                     (interactive E) st1) st1
             in st2 \<lparr> runs := runs st2 @ [Retry_run i None retry] \<rparr>)"

text \<open>
  The arguments and the stdin of the first attempt: \<open>(call.args || []).map(expand)\<close>,
  and \<open>expand(call.stdin || '')\<close> when the call has a \<open>stdin\<close> property,
  \<open>lastRun?.stdout ?? ''\<close> when it has none.
\<close>

definition expanded_args :: "chain_state \<Rightarrow> run_call \<Rightarrow> string list" where
  "expanded_args st call =
     map (expand_string (lastRun st) (runIndex st))
       (case call_args call of None \<Rightarrow> [] | Some a \<Rightarrow> a)"

definition chosen_stdin :: "chain_state \<Rightarrow> run_call \<Rightarrow> string" where
  "chosen_stdin st call =
     (case call_stdin call of
        Some s \<Rightarrow> expand_string (lastRun st) (runIndex st) (or_str (Some s) [])
      | None \<Rightarrow> (case lastRun st of None \<Rightarrow> [] | Some r \<Rightarrow> stdout r))"

text \<open>One round of the loop for a call whose tool \<open>t\<close> was found under the key \<open>i\<close>.\<close>

definition run_found :: "chain_env \<Rightarrow> tool_record \<Rightarrow> string \<Rightarrow> run_call \<Rightarrow> chain_state \<Rightarrow> chain_state" where
  "run_found E t i call st =
     (let args = expanded_args st call;
          stdin = chosen_stdin st call;
          (res, st0) = call_sandbox E (run_request E t i ''-'' args stdin True st) st;
          st1 = st0 \<lparr> runs := runs st0 @ [First_run i args res],
                      runIndex := (runIndex st0)(i \<mapsto> res),
                      lastRun := Some res \<rparr>
      in if code res = Some 0 then st1
         else
           (let (res', st2) = (if network_allowed E then dependency_fix E t i args stdin res st1
                               else (res, st1))
            in if code res' \<noteq> Some 0 then model_patch E t i call args res' st2 else st2))"

text \<open>
  One round of the loop. A call that names no tool at all finds none.
\<close>

definition run_call_step :: "chain_env \<Rightarrow> (string \<rightharpoonup> tool_record) \<Rightarrow> run_call \<Rightarrow> chain_state \<Rightarrow> chain_state" where
  "run_call_step E catalog call st =
     (case call_key call of
        None \<Rightarrow> st \<lparr> runs := runs st @ [Not_found None] \<rparr>
      | Some i \<Rightarrow>
          (case catalog i of
             None \<Rightarrow> st \<lparr> runs := runs st @ [Not_found (Some i)] \<rparr>
           | Some t \<Rightarrow> run_found E t i call st))"

definition run_chain :: "chain_env \<Rightarrow> (string \<rightharpoonup> tool_record) \<Rightarrow> run_call list \<Rightarrow> chain_state \<Rightarrow> chain_state" where
  "run_chain E catalog calls st = foldl (\<lambda>s call. run_call_step E catalog call s) st calls"

section \<open>Notions used in the statements\<close>


text \<open>What one round of the loop of \<open>loadTools\<close> stores for a directory name, if anything.\<close>

definition load_entry ::
  "(string \<Rightarrow> json option) \<Rightarrow> fs \<Rightarrow> npath \<Rightarrow> string \<Rightarrow> tool_record option" where
  "load_entry parseText files toolsRoot d =
     (let mp = path_join toolsRoot [d, ''manifest.json'']
      in case readJson parseText files mp of
           None \<Rightarrow> None
         | Some m \<Rightarrow> map_option (\<lambda>parsed. tool_of parsed (path_join toolsRoot [d]) mp)
                       (ToolManifest_parse m))"









text \<open>
  The runs that feed the chain: a first attempt, or a retry of the dependency heuristic
  (the one with a \<open>reason\<close>); and the latest of them in \<open>runs\<close>.
\<close>

fun feeds :: "run_entry \<Rightarrow> run_result option" where
  "feeds (First_run i args r) = Some r"
| "feeds (Retry_run i (Some reason) r) = Some r"
| "feeds _ = None"

definition last_feeding :: "run_entry list \<Rightarrow> run_result option" where
  "last_feeding rs = (case List.map_filter feeds rs of [] \<Rightarrow> None | x # xs \<Rightarrow> Some (last (x # xs)))"


section \<open>Properties of memory\<close>

lemma js_slice_from_last:
  "0 < k \<Longrightarrow> k \<le> int (length xs) \<Longrightarrow>
   js_slice_from (- k) xs = drop (length xs - nat k) xs"
  by (simp add: js_slice_from_def Let_def nat_diff_distrib' max_def)

text \<open>
  C8. With \<open>maxTurns = 40\<close>, given or by default, \<open>summarizeHistory\<close> returns the history
  itself when it has at most 40 entries; otherwise it returns one synthetic system entry,
  whose content states the number \<open>length history - 40\<close> of omitted turns, followed by
  exactly the last 40 entries of the history. In both cases the memory, and so
  \<open>memory.history\<close>, is after the call what it was before.
\<close>

theorem summarizeHistory_40:
  assumes "maxTurns = None \<or> maxTurns = Some 40"
  shows "summarizeHistory m maxTurns =
     ((if length (mem_history m) \<le> 40 then mem_history m
       else \<lparr> role = ''system'',
              content = ''Summarized context: '' @ dec_nat (length (mem_history m) - 40)
                        @ '' earlier turns omitted.'',
              ts = None \<rparr> # drop (length (mem_history m) - 40) (mem_history m)),
      m)"
proof -
  let ?h = "mem_history m"
  have n: "(case maxTurns of None \<Rightarrow> 40 | Some k \<Rightarrow> k) = (40::int)"
    using assms by auto
  show ?thesis
  proof (cases "length ?h \<le> 40")
    case True
    then show ?thesis by (simp add: summarizeHistory_def n)
  next
    case False
    then have big: "(40::int) \<le> int (length ?h)" by simp
    have keep: "js_slice_from (- 40) ?h = drop (length ?h - 40) ?h"
      using js_slice_from_last [of 40 ?h] big by simp
    have len: "length ?h - length (drop (length ?h - 40) ?h) = length ?h - 40"
      using False by simp
    show ?thesis
      using False by (simp add: summarizeHistory_def n Let_def keep len)
  qed
qed

theorem summarizeHistory_40_witness:
  "summarizeHistory
     \<lparr> mem_tools = Map.empty,
       mem_history = replicate 42 \<lparr> role = ''user'', content = ''hi'', ts = Some 7 \<rparr>,
       mem_runs = [] \<rparr> None =
     (\<lparr> role = ''system'', content = ''Summarized context: 2 earlier turns omitted.'', ts = None \<rparr>
        # replicate 40 \<lparr> role = ''user'', content = ''hi'', ts = Some 7 \<rparr>,
      \<lparr> mem_tools = Map.empty,
        mem_history = replicate 42 \<lparr> role = ''user'', content = ''hi'', ts = Some 7 \<rparr>,
        mem_runs = [] \<rparr>)"
  using summarizeHistory_40 [of None
      "\<lparr> mem_tools = Map.empty,
         mem_history = replicate 42 \<lparr> role = ''user'', content = ''hi'', ts = Some 7 \<rparr>,
         mem_runs = [] \<rparr>"]
  by (simp add: dec_nat.simps digit_char_def)

section \<open>Properties of the tool store\<close>

subsection \<open>Where writeToolCode writes\<close>









subsection \<open>Saving and loading manifests\<close>




lemma z_language_roundtrip: "z_language (Some (JStr (language_name l))) = Some l"
  by (cases l) (simp_all add: language_name_def)


lemma load_each_step:
  "load_each P fs root (d # ds) out =
     load_each P fs root ds (case load_entry P fs root d of None \<Rightarrow> out | Some r \<Rightarrow> out(d \<mapsto> r))"
  by (auto simp: load_entry_def Let_def pathExists_def readJson_def split: option.splits file_data.splits)

lemma load_each_lookup:
  "load_each P fs root ds out k =
     (if k \<in> set ds then (case load_entry P fs root k of None \<Rightarrow> out k | Some r \<Rightarrow> Some r) else out k)"
proof (induction ds arbitrary: out)
  case Nil
  then show ?case by simp
next
  case (Cons d ds)
  show ?case
    unfolding load_each_step Cons.IH
    by (auto split: option.splits)
qed

lemma loadTools_lookup:
  "loadTools P sandboxDir fs k =
     (if k \<in> set (readdir fs (path_join0 [sandboxDir, ''tools''])) \<and> \<not> startsWith k ''.''
      then load_entry P fs (path_join0 [sandboxDir, ''tools'']) k else None)"
  by (simp add: loadTools_def Let_def load_each_lookup split: option.splits)

lemma tool_of_fields [simp]:
  "id' (tool_of m d mp) = id' m" "entry (tool_of m d mp) = entry m"
  "language (tool_of m d mp) = language m" "name (tool_of m d mp) = name m"
  "path (tool_of m d mp) = d" "manifestPath (tool_of m d mp) = mp"
  by (simp_all add: tool_of_def manifest.defs)

lemma truncate_tool_of [simp]: "manifest.truncate (tool_of m d mp) = m"
  by (simp add: tool_of_def manifest.defs)













text \<open>
  C10 (as amended). For every entry \<open>d\<close> of \<open>tools/\<close> whose name does not start with a dot
  and whose \<open>manifest.json\<close> parses against the schema, \<open>loadTools\<close> returns the record
  under the key \<open>d\<close>; the record's manifest fields, its \<open>id\<close> among them, are those of the
  file, and its \<open>path\<close> is \<open>tools/d\<close>. The key and the \<open>id\<close> field need not agree (the
  witness has key \<open>alpha\<close> with id \<open>beta\<close>).
\<close>

theorem loadTools_keyed_by_directory:
  assumes listed: "d \<in> set (readdir files (path_join0 [sandboxDir, ''tools'']))"
      and shown: "\<not> startsWith d ''.''"
      and read: "readJson parseText files
                   (path_join (path_join0 [sandboxDir, ''tools'']) [d, ''manifest.json'']) = Some j"
      and valid: "ToolManifest_parse j = Some m"
  shows "\<exists>r. loadTools parseText sandboxDir files d = Some r
             \<and> manifest.truncate r = m \<and> id' r = id' m
             \<and> path r = path_join (path_join0 [sandboxDir, ''tools'']) [d]"
proof -
  let ?root = "path_join0 [sandboxDir, ''tools'']"
  have "load_entry parseText files ?root d
          = Some (tool_of m (path_join ?root [d]) (path_join ?root [d, ''manifest.json'']))"
    unfolding load_entry_def Let_def read by (simp add: valid)
  with listed shown show ?thesis by (simp add: loadTools_lookup)
qed

theorem loadTools_keyed_by_directory_witness:
  "(\<exists>r. loadTools Map.empty ''/sb''
           [(\<lparr> isAbsolute = True, segments = [''sb'', ''tools'', ''alpha'', ''manifest.json''] \<rparr>,
             JsonDoc (JObj [(''id'', JStr ''beta''), (''name'', JStr ''echo''), (''purpose'', JStr ''echo stdin''), (''language'', JStr ''python''), (''entry'', JStr ''main.py''), (''createdAt'', JNum 1), (''updatedAt'', JNum 2)]))] ''alpha'' = Some r
        \<and> id' r = ''beta'')
   \<and> loadTools Map.empty ''/sb''
        [(\<lparr> isAbsolute = True, segments = [''sb'', ''tools'', ''alpha'', ''manifest.json''] \<rparr>,
          JsonDoc (JObj [(''id'', JStr ''beta''), (''name'', JStr ''echo''), (''purpose'', JStr ''echo stdin''), (''language'', JStr ''python''), (''entry'', JStr ''main.py''), (''createdAt'', JNum 1), (''updatedAt'', JNum 2)]))] ''beta'' = None"
proof -
  let ?j = "JObj [(''id'', JStr ''beta''), (''name'', JStr ''echo''), (''purpose'', JStr ''echo stdin''), (''language'', JStr ''python''), (''entry'', JStr ''main.py''), (''createdAt'', JNum 1), (''updatedAt'', JNum 2)]"
  let ?files = "[(\<lparr> isAbsolute = True, segments = [''sb'', ''tools'', ''alpha'', ''manifest.json''] \<rparr>, JsonDoc ?j)]"
  have l: "''alpha'' \<in> set (readdir ?files (path_join0 [''/sb'', ''tools'']))"
    by (simp add: readdir_def child_name_def path_join0_def raw_segments_def norm_step_def)
  have h: "\<not> startsWith ''alpha'' ''.''" by (simp add: startsWith_def)
  have r: "readJson Map.empty ?files (path_join (path_join0 [''/sb'', ''tools'']) [''alpha'', ''manifest.json'']) = Some ?j"
    by (simp add: readJson_def readFile_def path_join0_def path_join_def raw_segments_def norm_step_def)
  have v: "ToolManifest_parse ?j = Some \<lparr> id' = ''beta'', name = ''echo'', purpose = ''echo stdin'',
       language = Python, entry = ''main.py'', inputs = [], outputs = [], usage = [], createdAt = 1, updatedAt = 2 \<rparr>"
    by simp
  have n: "loadTools Map.empty ''/sb'' ?files ''beta'' = None"
    by (simp add: loadTools_def readdir_def child_name_def path_join0_def path_join_def
        raw_segments_def norm_step_def startsWith_def pathExists_def readFile_def readJson_def tool_of_def)
  from loadTools_keyed_by_directory [OF l h r v]
  obtain rr where "loadTools Map.empty ''/sb'' ?files ''alpha'' = Some rr" and "id' rr = ''beta''"
    by (elim exE conjE) simp
  with n show ?thesis by simp
qed

text \<open>
  The claim as written fails for a directory whose name starts with a dot: its manifest
  parses, yet nothing is returned under its name.
\<close>

theorem loadTools_skips_hidden_directory:
  "ToolManifest_parse (JObj [(''id'', JStr ''.hidden''), (''name'', JStr ''echo''), (''purpose'', JStr ''echo stdin''), (''language'', JStr ''python''), (''entry'', JStr ''main.py''), (''createdAt'', JNum 1), (''updatedAt'', JNum 2)]) \<noteq> None
   \<and> ''.hidden'' \<in> set (readdir
        [(\<lparr> isAbsolute = True, segments = [''sb'', ''tools'', ''.hidden'', ''manifest.json''] \<rparr>,
          JsonDoc (JObj [(''id'', JStr ''.hidden''), (''name'', JStr ''echo''), (''purpose'', JStr ''echo stdin''), (''language'', JStr ''python''), (''entry'', JStr ''main.py''), (''createdAt'', JNum 1), (''updatedAt'', JNum 2)]))] (path_join0 [''/sb'', ''tools'']))
   \<and> loadTools Map.empty ''/sb''
        [(\<lparr> isAbsolute = True, segments = [''sb'', ''tools'', ''.hidden'', ''manifest.json''] \<rparr>,
          JsonDoc (JObj [(''id'', JStr ''.hidden''), (''name'', JStr ''echo''), (''purpose'', JStr ''echo stdin''), (''language'', JStr ''python''), (''entry'', JStr ''main.py''), (''createdAt'', JNum 1), (''updatedAt'', JNum 2)]))] ''.hidden'' = None"
  by (simp add: loadTools_def readdir_def child_name_def path_join0_def path_join_def
        raw_segments_def norm_step_def startsWith_def)

subsection \<open>The default entry file\<close>

lemma z_string_Some: "z_string x = Some s \<Longrightarrow> x = Some (JStr s)"
  by (cases x rule: z_string.cases) simp_all

lemma parsed_entry:
  "ToolManifest_parse (JObj kv) = Some p \<Longrightarrow> map_of kv ''entry'' = Some (JStr (entry p))"
  by (auto simp: bind_eq_Some_conv dest: z_string_Some)

lemma materialize_created:
  assumes ok: "created (materialize clock message sandboxDir t st) = created st @ [toolId]"
  shows "\<exists>files1 c u files2 saved.
           saveTool sandboxDir (spec_manifest t toolId c u) files1 = Some (files2, saved)
         \<and> disk (materialize clock message sandboxDir t st) = files2
         \<and> tools (materialize clock message sandboxDir t st) toolId = Some saved"
proof -
  obtain tid n1 where c: "choose_toolId clock t (ticks st) = (tid, n1)" by force
  let ?entries = "case spec_files t of None \<Rightarrow> [] | Some es \<Rightarrow> es"
  obtain files1 toolsDir where w: "writeToolCode sandboxDir tid ?entries (disk st) = (files1, toolsDir)"
    by force
  let ?m = "spec_manifest t tid (clock n1) (clock (Suc n1))"
  show ?thesis
  proof (cases "saveTool sandboxDir ?m files1")
    case None
    then have "created (materialize clock message sandboxDir t st) = created st"
      by (simp add: materialize_def c w Let_def)
    with ok show ?thesis by simp
  next
    case (Some r)
    obtain files2 saved where r: "r = (files2, saved)" by (cases r)
    from Some r have m: "materialize clock message sandboxDir t st =
        st \<lparr> disk := files2, createdFiles := createdFiles st @ [(tid, map fst ?entries)],
             tools := (tools st)(tid \<mapsto> saved), created := created st @ [tid], ticks := Suc (Suc n1) \<rparr>"
      by (simp add: materialize_def c w Let_def)
    with ok have "tid = toolId" by simp
    with Some r m show ?thesis by auto
  qed
qed

text \<open>
  C7. When a tool specification has no \<open>entry\<close> and the round of the loop creates the tool
  (its id is appended to \<open>created\<close>), the catalog record and the manifest persisted on
  disk have \<open>entry = index.mjs\<close>, whatever the language; the witness is a python tool.
\<close>

theorem default_entry_is_index_mjs:
  assumes omitted: "spec_entry t = None"
      and ok: "created (materialize clock message sandboxDir t st) = created st @ [toolId]"
  shows "\<exists>saved. tools (materialize clock message sandboxDir t st) toolId = Some saved
              \<and> entry saved = ''index.mjs''
              \<and> readJson parseText (disk (materialize clock message sandboxDir t st)) (manifestPath saved)
                  = Some (manifest_json (manifest.truncate saved))"
proof -
  from materialize_created [OF ok] obtain files1 c u files2 saved
    where save: "saveTool sandboxDir (spec_manifest t toolId c u) files1 = Some (files2, saved)"
      and d: "disk (materialize clock message sandboxDir t st) = files2"
      and t: "tools (materialize clock message sandboxDir t st) toolId = Some saved"
    by blast
  from save obtain parsed where parsed: "ToolManifest_parse (spec_manifest t toolId c u) = Some parsed"
    by (auto simp: saveTool_def split: option.splits)
  let ?mp = "path_join (path_join0 [sandboxDir, ''tools'', id' parsed]) [''manifest.json'']"
  from save parsed have f2: "files2 = writeJson files1 ?mp (manifest_json parsed)"
    and saved: "saved = tool_of parsed (path_join0 [sandboxDir, ''tools'', id' parsed]) ?mp"
    by (auto simp: saveTool_def Let_def)
  from parsed_entry [OF parsed [unfolded spec_manifest_def]] omitted
  have "entry parsed = ''index.mjs''" by simp
  moreover have "readJson parseText files2 ?mp = Some (manifest_json parsed)"
    by (simp add: f2 readJson_def readFile_def writeJson_def)
  ultimately show ?thesis using t d saved by simp
qed

theorem default_entry_is_index_mjs_witness:
  "\<exists>saved. tools (materialize (\<lambda>n. 1700000000000 + int n) (\<lambda>j. ''invalid'') ''/sb''
        \<lparr> spec_id = Some ''wc'', spec_name = Some ''Word Count'', spec_language = Some ''python'',
          spec_entry = None, spec_purpose = None, spec_files = Some [(''main.py'', ''print(1)'')],
          spec_inputs = None, spec_outputs = None, spec_usage = None \<rparr>
        \<lparr> disk = [], tools = Map.empty, created = [], createdFiles = [], memory = \<lparr> mem_tools = Map.empty, mem_history = [], mem_runs = [] \<rparr>, ticks = 0 \<rparr>) ''wc''
      = Some saved \<and> entry saved = ''index.mjs'' \<and> language saved = Python"
proof -
  let ?t = "\<lparr> spec_id = Some ''wc'', spec_name = Some ''Word Count'', spec_language = Some ''python'',
          spec_entry = None, spec_purpose = None, spec_files = Some [(''main.py'', ''print(1)'')],
          spec_inputs = None, spec_outputs = None, spec_usage = None \<rparr>"
  let ?st = "\<lparr> disk = [], tools = Map.empty, created = [], createdFiles = [], memory = \<lparr> mem_tools = Map.empty, mem_history = [], mem_runs = [] \<rparr>, ticks = 0 \<rparr>"
  let ?st' = "materialize (\<lambda>n. 1700000000000 + int n) (\<lambda>j. ''invalid'') ''/sb'' ?t ?st"
  have o: "spec_entry ?t = None" by simp
  have c: "created ?st' = created ?st @ [''wc'']"
    by (simp add: materialize_def choose_toolId_def writeToolCode_def spec_manifest_def saveTool_def Let_def)
  have l: "\<forall>saved. tools ?st' ''wc'' = Some saved \<longrightarrow> language saved = Python"
    by (simp add: materialize_def choose_toolId_def writeToolCode_def spec_manifest_def saveTool_def Let_def
          tool_of_def manifest.defs)
  from default_entry_is_index_mjs [OF o c, of Map.empty] l show ?thesis by blast
qed
section \<open>Properties of the sandbox\<close>













section \<open>Properties of the run chain\<close>

subsection \<open>Template expansion\<close>













subsection \<open>What the loop keeps in lastRun and runIndex\<close>

lemma map_filter_snoc:
  "List.map_filter g (xs @ [x]) = List.map_filter g xs @ (case g x of None \<Rightarrow> [] | Some y \<Rightarrow> [y])"
  by (induction xs) (auto split: option.splits)

lemma last_feeding_snoc:
  "last_feeding (rs @ [e]) = (case feeds e of Some r \<Rightarrow> Some r | None \<Rightarrow> last_feeding rs)"
proof (cases "feeds e")
  case None
  then show ?thesis by (simp add: last_feeding_def map_filter_snoc)
next
  case (Some r)
  then show ?thesis
    by (cases "List.map_filter feeds rs") (simp_all add: last_feeding_def map_filter_snoc)
qed

lemma call_sandbox_frame:
  assumes "call_sandbox E rq st = (res, st')"
  shows "runs st' = runs st" "lastRun st' = lastRun st" "runIndex st' = runIndex st"
        "requests st' = requests st @ [rq]" "fix_prompts st' = fix_prompts st"
        "res = run_tool E (length (requests st)) rq"
  using assms by (auto simp: call_sandbox_def)

lemma dependency_fix_cases:
  assumes "dependency_fix E t i args stdin res st = (res', st')"
  shows "(res' = res \<and> st' = st)
       \<or> (\<exists>reason rq. runs st' = runs st @ [Retry_run i (Some reason) res']
             \<and> lastRun st' = Some res' \<and> runIndex st' = (runIndex st)(i \<mapsto> res')
             \<and> requests st' = requests st @ [rq])"
proof -
  obtain found reason where fr:
    "(case language t of
        Python \<Rightarrow> (find_quoted ''ModuleNotFoundError: No module named '' (stderr res), ''auto-install-python'')
      | Node \<Rightarrow> (find_quoted ''Cannot find module '' (stderr res), ''auto-install-node'')) = (found, reason)"
    by force
  show ?thesis
  proof (cases found)
    case None
    with assms fr show ?thesis by (simp add: dependency_fix_def)
  next
    case (Some pkg)
    obtain retry st1 where cs: "call_sandbox E (run_request E t i ''-deps-'' args stdin True st) st = (retry, st1)"
      by force
    from assms fr Some cs have r: "res' = retry"
      and s: "st' = st1 \<lparr> runs := runs st1 @ [Retry_run i (Some reason) retry],
                          runIndex := (runIndex st1)(i \<mapsto> retry), lastRun := Some retry \<rparr>"
      by (auto simp: dependency_fix_def)
    show ?thesis using call_sandbox_frame [OF cs] r s by auto
  qed
qed

lemma model_patch_cases:
  "lastRun (model_patch E t i call args res st) = lastRun st
   \<and> runIndex (model_patch E t i call args res st) = runIndex st
   \<and> ((runs (model_patch E t i call args res st) = runs st
        \<and> requests (model_patch E t i call args res st) = requests st)
      \<or> (\<exists>retry rq. runs (model_patch E t i call args res st) = runs st @ [Retry_run i None retry]
            \<and> requests (model_patch E t i call args res st) = requests st @ [rq]))"
proof -
  let ?prompt = "''Tool '' @ name t @ '' failed. stderr:'' @ [CHR 0x0A] @ stderr res
                      @ [CHR 0x0A, CHR 0x0A]
                      @ ''Propose a minimal patch to fix. Return JSON {files:{path: content}}''"
  let ?st1 = "st \<lparr> fix_prompts := fix_prompts st @ [?prompt] \<rparr>"
  show ?thesis
  proof (cases "propose_fix E (length (fix_prompts st)) ?prompt")
    case None
    then have "model_patch E t i call args res st = ?st1"
      by (simp add: model_patch_def Let_def)
    then show ?thesis by simp
  next
    case (Some patch)
    obtain retry st2 where cs:
      "call_sandbox E (run_request E t i ''-retry-'' args (or_str (call_stdin call) []) (interactive E) ?st1) ?st1
         = (retry, st2)" by force
    from Some cs have "model_patch E t i call args res st = st2 \<lparr> runs := runs st2 @ [Retry_run i None retry] \<rparr>"
      by (simp add: model_patch_def Let_def)
    then show ?thesis using call_sandbox_frame [OF cs] by auto
  qed
qed

lemma run_found_outcome:
  "\<exists>fed patched pre more.
      runs (run_found E t i call st) = runs st @ fed @ patched
    \<and> fed \<noteq> [] \<and> feeds (last fed) = Some pre
    \<and> lastRun (run_found E t i call st) = Some pre
    \<and> runIndex (run_found E t i call st) i = Some pre
    \<and> (patched = [] \<or> (\<exists>retry. patched = [Retry_run i None retry] \<and> code pre \<noteq> Some 0))
    \<and> requests (run_found E t i call st)
         = requests st @ run_request E t i ''-'' (expanded_args st call) (chosen_stdin st call) True st # more"
proof -
  let ?args = "expanded_args st call"
  let ?stdin = "chosen_stdin st call"
  let ?rq = "run_request E t i ''-'' ?args ?stdin True st"
  obtain res st0 where cs: "call_sandbox E ?rq st = (res, st0)" by force
  note f0 = call_sandbox_frame [OF cs]
  let ?st1 = "st0 \<lparr> runs := runs st0 @ [First_run i ?args res],
                      runIndex := (runIndex st0)(i \<mapsto> res), lastRun := Some res \<rparr>"
  show ?thesis
  proof (cases "code res = Some 0")
    case True
    then have "run_found E t i call st = ?st1"
      using cs by (simp add: run_found_def Let_def)
    then show ?thesis using f0
      by (intro exI [of _ "[First_run i ?args res]"] exI [of _ "[]"] exI [of _ res]) simp
  next
    case False
    obtain res' st2 where df:
      "(if network_allowed E then dependency_fix E t i ?args ?stdin res ?st1 else (res, ?st1)) = (res', st2)"
      by force
    have step: "run_found E t i call st
                  = (if code res' \<noteq> Some 0 then model_patch E t i call ?args res' st2 else st2)"
      using cs False df by (simp add: run_found_def Let_def)
    have mid: "\<exists>fed more. runs st2 = runs st @ fed \<and> fed \<noteq> [] \<and> feeds (last fed) = Some res'
                 \<and> lastRun st2 = Some res' \<and> runIndex st2 i = Some res'
                 \<and> requests st2 = requests st @ ?rq # more"
    proof (cases "network_allowed E")
      case False
      with df have "res' = res" "st2 = ?st1" by auto
      then show ?thesis using f0
        by (intro exI [of _ "[First_run i ?args res]"] exI [of _ "[]"]) simp
    next
      case True
      with df have "dependency_fix E t i ?args ?stdin res ?st1 = (res', st2)" by simp
      from dependency_fix_cases [OF this] show ?thesis
      proof
        assume "res' = res \<and> st2 = ?st1"
        then show ?thesis using f0
          by (intro exI [of _ "[First_run i ?args res]"] exI [of _ "[]"]) simp
      next
        assume "\<exists>reason rq. runs st2 = runs ?st1 @ [Retry_run i (Some reason) res']
             \<and> lastRun st2 = Some res' \<and> runIndex st2 = (runIndex ?st1)(i \<mapsto> res')
             \<and> requests st2 = requests ?st1 @ [rq]"
        then obtain reason rq where
          "runs st2 = runs ?st1 @ [Retry_run i (Some reason) res']"
          "lastRun st2 = Some res'" "runIndex st2 = (runIndex ?st1)(i \<mapsto> res')"
          "requests st2 = requests ?st1 @ [rq]" by blast
        then show ?thesis using f0
          by (intro exI [of _ "[First_run i ?args res, Retry_run i (Some reason) res']"] exI [of _ "[rq]"])
             simp
      qed
    qed
    then obtain fed more where m:
      "runs st2 = runs st @ fed" "fed \<noteq> []" "feeds (last fed) = Some res'"
      "lastRun st2 = Some res'" "runIndex st2 i = Some res'"
      "requests st2 = requests st @ ?rq # more" by blast
    show ?thesis
    proof (cases "code res' \<noteq> Some 0")
      case False
      with step have "run_found E t i call st = st2" by simp
      with m show ?thesis
        by (intro exI [of _ fed] exI [of _ "[]"] exI [of _ res'] exI [of _ more]) simp
    next
      case True
      with step have s: "run_found E t i call st = model_patch E t i call ?args res' st2" by simp
      from model_patch_cases [of E t i call ?args res' st2]
      have keep: "lastRun (model_patch E t i call ?args res' st2) = lastRun st2"
                 "runIndex (model_patch E t i call ?args res' st2) = runIndex st2"
        and alt: "(runs (model_patch E t i call ?args res' st2) = runs st2
                    \<and> requests (model_patch E t i call ?args res' st2) = requests st2)
                \<or> (\<exists>retry rq. runs (model_patch E t i call ?args res' st2) = runs st2 @ [Retry_run i None retry]
                    \<and> requests (model_patch E t i call ?args res' st2) = requests st2 @ [rq])"
        by simp_all
      from alt show ?thesis
      proof
        assume "runs (model_patch E t i call ?args res' st2) = runs st2
                    \<and> requests (model_patch E t i call ?args res' st2) = requests st2"
        with s keep m show ?thesis
          by (intro exI [of _ fed] exI [of _ "[]"] exI [of _ res'] exI [of _ more]) simp
      next
        assume "\<exists>retry rq. runs (model_patch E t i call ?args res' st2) = runs st2 @ [Retry_run i None retry]
                    \<and> requests (model_patch E t i call ?args res' st2) = requests st2 @ [rq]"
        then obtain retry rq where
          "runs (model_patch E t i call ?args res' st2) = runs st2 @ [Retry_run i None retry]"
          "requests (model_patch E t i call ?args res' st2) = requests st2 @ [rq]" by blast
        with s keep m True show ?thesis
          by (intro exI [of _ fed] exI [of _ "[Retry_run i None retry]"] exI [of _ res']
                exI [of _ "more @ [rq]"]) simp
      qed
    qed
  qed
qed

lemma last_feeding_fed:
  assumes "fed \<noteq> []" and "feeds (last fed) = Some pre"
  shows "last_feeding (rs @ fed) = Some pre"
proof -
  have "rs @ fed = (rs @ butlast fed) @ [last fed]" using assms(1) by simp
  then show ?thesis using assms(2) by (simp only: last_feeding_snoc) simp
qed

lemma last_feeding_patched:
  assumes "fed \<noteq> []" and "feeds (last fed) = Some pre"
      and "patched = [] \<or> (\<exists>retry. patched = [Retry_run i None retry])"
  shows "last_feeding (rs @ fed @ patched) = Some pre"
  using assms(3)
proof
  assume "patched = []"
  then show ?thesis using last_feeding_fed [OF assms(1,2)] by simp
next
  assume "\<exists>retry. patched = [Retry_run i None retry]"
  then obtain retry where "patched = [Retry_run i None retry]" by blast
  then have "rs @ fed @ patched = (rs @ fed) @ [Retry_run i None retry]" by simp
  then show ?thesis using last_feeding_fed [OF assms(1,2)] by (simp only: last_feeding_snoc) simp
qed

lemma run_found_invariant:
  "lastRun (run_found E t i call st) = last_feeding (runs (run_found E t i call st))"
proof -
  from run_found_outcome [of E t i call st] obtain fed patched pre where
    r: "runs (run_found E t i call st) = runs st @ fed @ patched"
    and f: "fed \<noteq> []" "feeds (last fed) = Some pre"
    and l: "lastRun (run_found E t i call st) = Some pre"
    and p: "patched = [] \<or> (\<exists>retry. patched = [Retry_run i None retry] \<and> code pre \<noteq> Some 0)"
    by blast
  from p have "patched = [] \<or> (\<exists>retry. patched = [Retry_run i None retry])" by blast
  from last_feeding_patched [OF f this] r l show ?thesis by simp
qed

lemma run_call_step_invariant:
  assumes "lastRun st = last_feeding (runs st)"
  shows "lastRun (run_call_step E catalog c st) = last_feeding (runs (run_call_step E catalog c st))"
proof (cases "call_key c")
  case None
  then show ?thesis using assms by (simp add: run_call_step_def last_feeding_snoc)
next
  case (Some i)
  show ?thesis
  proof (cases "catalog i")
    case None
    with Some show ?thesis using assms by (simp add: run_call_step_def last_feeding_snoc)
  next
    case (Some t)
    with \<open>call_key c = Some i\<close> show ?thesis
      by (simp add: run_call_step_def run_found_invariant)
  qed
qed

lemma run_chain_invariant:
  "lastRun st = last_feeding (runs st) \<Longrightarrow>
   lastRun (run_chain E catalog calls st) = last_feeding (runs (run_chain E catalog calls st))"
proof (induction calls arbitrary: st)
  case Nil
  then show ?case by (simp add: run_chain_def)
next
  case (Cons c calls)
  from Cons.IH [OF run_call_step_invariant [OF Cons.prems]]
  show ?case by (simp add: run_chain_def)
qed

lemma initial_invariant: "lastRun initial_chain = last_feeding (runs initial_chain)"
  by (simp add: initial_chain_def last_feeding_def)

text \<open>
  C4 (as amended). At any point of the chain, for a call whose tool is found: if it has no
  \<open>stdin\<close> property, the stdin passed to \<open>Sandbox.run\<close> for its first attempt is the
  stdout of the latest run that feeds the chain, that is of the latest first attempt or
  dependency retry so far, whatever its exit code (a model-patch retry and a call whose
  tool was not found do not count), and empty if there is no such run; if it supplies the
  empty string, the stdin passed is empty.
\<close>

theorem stdin_chaining:
  assumes reach: "st = run_chain E catalog earlier initial_chain"
      and key: "call_key c = Some i" and tool: "catalog i = Some t"
  shows "(call_stdin c = None \<longrightarrow>
            rq_stdin (requests (run_call_step E catalog c st) ! length (requests st))
              = (case last_feeding (runs st) of None \<Rightarrow> [] | Some r \<Rightarrow> stdout r))
       \<and> (call_stdin c = Some [] \<longrightarrow>
            rq_stdin (requests (run_call_step E catalog c st) ! length (requests st)) = [])"
proof -
  have inv: "lastRun st = last_feeding (runs st)"
    unfolding reach by (rule run_chain_invariant [OF initial_invariant])
  from run_found_outcome [of E t i c st] obtain more where
    "requests (run_found E t i c st)
       = requests st @ run_request E t i ''-'' (expanded_args st c) (chosen_stdin st c) True st # more"
    by blast
  then have "rq_stdin (requests (run_call_step E catalog c st) ! length (requests st)) = chosen_stdin st c"
    using key tool by (simp add: run_call_step_def run_request_def)
  then show ?thesis
    by (simp add: chosen_stdin_def inv expand_string_def)
qed

theorem stdin_chaining_witness:
  "rq_stdin (requests (run_call_step (\<lparr> run_tool = (\<lambda>k rq. \<lparr> code = Some 0, stdout = ''ABC'', stderr = '''', logFile = \<lparr> isAbsolute = False, segments = [] \<rparr> \<rparr>), propose_fix = (\<lambda>k p. None), time = (\<lambda>n. 7), network_allowed = False, interactive = False \<rparr>) [''a'' \<mapsto> tool_of \<lparr> id' = ''a'', name = ''a'', purpose = ''p'', language = Python, entry = ''main.py'', inputs = [], outputs = [], usage = [], createdAt = 1, updatedAt = 1 \<rparr> (\<lparr> isAbsolute = False, segments = [] \<rparr>) (\<lparr> isAbsolute = False, segments = [] \<rparr>)] (\<lparr> call_id = Some ''a'', call_toolId = None, call_args = None, call_stdin = None \<rparr>)
       (run_chain (\<lparr> run_tool = (\<lambda>k rq. \<lparr> code = Some 0, stdout = ''ABC'', stderr = '''', logFile = \<lparr> isAbsolute = False, segments = [] \<rparr> \<rparr>), propose_fix = (\<lambda>k p. None), time = (\<lambda>n. 7), network_allowed = False, interactive = False \<rparr>) [''a'' \<mapsto> tool_of \<lparr> id' = ''a'', name = ''a'', purpose = ''p'', language = Python, entry = ''main.py'', inputs = [], outputs = [], usage = [], createdAt = 1, updatedAt = 1 \<rparr> (\<lparr> isAbsolute = False, segments = [] \<rparr>) (\<lparr> isAbsolute = False, segments = [] \<rparr>)] [\<lparr> call_id = Some ''a'', call_toolId = None, call_args = None, call_stdin = Some ''x'' \<rparr>] initial_chain)) ! 1) = ''ABC''"
proof -
  let ?E = "\<lparr> run_tool = (\<lambda>k rq. \<lparr> code = Some 0, stdout = ''ABC'', stderr = '''', logFile = \<lparr> isAbsolute = False, segments = [] \<rparr> \<rparr>), propose_fix = (\<lambda>k p. None), time = (\<lambda>n. 7), network_allowed = False, interactive = False \<rparr>"
  let ?cat = "[''a'' \<mapsto> tool_of \<lparr> id' = ''a'', name = ''a'', purpose = ''p'', language = Python, entry = ''main.py'', inputs = [], outputs = [], usage = [], createdAt = 1, updatedAt = 1 \<rparr> (\<lparr> isAbsolute = False, segments = [] \<rparr>) (\<lparr> isAbsolute = False, segments = [] \<rparr>)]"
  let ?c = "\<lparr> call_id = Some ''a'', call_toolId = None, call_args = None, call_stdin = None \<rparr>"
  let ?st = "run_chain ?E ?cat [\<lparr> call_id = Some ''a'', call_toolId = None, call_args = None, call_stdin = Some ''x'' \<rparr>] initial_chain"
  have k: "call_key ?c = Some ''a''" by (simp add: call_key_def)
  have t: "?cat ''a'' = Some (tool_of \<lparr> id' = ''a'', name = ''a'', purpose = ''p'', language = Python, entry = ''main.py'', inputs = [], outputs = [], usage = [], createdAt = 1, updatedAt = 1 \<rparr> (\<lparr> isAbsolute = False, segments = [] \<rparr>) (\<lparr> isAbsolute = False, segments = [] \<rparr>))" by simp
  have n: "length (requests ?st) = 1" by code_simp
  have l: "last_feeding (runs ?st) = Some (\<lparr> code = Some 0, stdout = ''ABC'', stderr = '''', logFile = \<lparr> isAbsolute = False, segments = [] \<rparr> \<rparr>)" by code_simp
  from stdin_chaining [where E = ?E and catalog = ?cat and c = ?c and i = "''a''"
      and earlier = "[\<lparr> call_id = Some ''a'', call_toolId = None, call_args = None, call_stdin = Some ''x'' \<rparr>]",
      OF refl k t]
  show ?thesis
    unfolding n l by simp
qed

text \<open>
  The claim as written fails when the previous run was not successful: the first call
  exits with code 1 and nothing repairs it, yet its stdout is the stdin of the next call,
  which has no \<open>stdin\<close> property and no successful run before it.
\<close>

theorem failed_run_feeds_next_stdin:
  "runs (run_chain (\<lparr> run_tool = (\<lambda>k rq. \<lparr> code = Some 1, stdout = ''partial'', stderr = ''boom'', logFile = \<lparr> isAbsolute = False, segments = [] \<rparr> \<rparr>), propose_fix = (\<lambda>k p. None), time = (\<lambda>n. 7), network_allowed = False, interactive = False \<rparr>) [''a'' \<mapsto> tool_of \<lparr> id' = ''a'', name = ''a'', purpose = ''p'', language = Python, entry = ''main.py'', inputs = [], outputs = [], usage = [], createdAt = 1, updatedAt = 1 \<rparr> (\<lparr> isAbsolute = False, segments = [] \<rparr>) (\<lparr> isAbsolute = False, segments = [] \<rparr>)] [\<lparr> call_id = Some ''a'', call_toolId = None, call_args = None, call_stdin = Some ''x'' \<rparr>] initial_chain) = [First_run ''a'' [] (\<lparr> code = Some 1, stdout = ''partial'', stderr = ''boom'', logFile = \<lparr> isAbsolute = False, segments = [] \<rparr> \<rparr>)]
   \<and> rq_stdin (requests (run_chain (\<lparr> run_tool = (\<lambda>k rq. \<lparr> code = Some 1, stdout = ''partial'', stderr = ''boom'', logFile = \<lparr> isAbsolute = False, segments = [] \<rparr> \<rparr>), propose_fix = (\<lambda>k p. None), time = (\<lambda>n. 7), network_allowed = False, interactive = False \<rparr>) [''a'' \<mapsto> tool_of \<lparr> id' = ''a'', name = ''a'', purpose = ''p'', language = Python, entry = ''main.py'', inputs = [], outputs = [], usage = [], createdAt = 1, updatedAt = 1 \<rparr> (\<lparr> isAbsolute = False, segments = [] \<rparr>) (\<lparr> isAbsolute = False, segments = [] \<rparr>)] [\<lparr> call_id = Some ''a'', call_toolId = None, call_args = None, call_stdin = Some ''x'' \<rparr>, \<lparr> call_id = Some ''a'', call_toolId = None, call_args = None, call_stdin = None \<rparr>] initial_chain) ! 1) = ''partial''"
  by code_simp




end
